theory Spec2Isabelle
  imports Complex_Main "HOL-Library.Multiset"
begin

section \<open>Data model\<close>

text \<open>
  Modelled from the spec: \<open>histolab.types.Region\<close> is not among the sources. A region
  is a connected component of a mask with a unique label id, a pixel area (the count
  of its pixels) and a boundary of \<open>(x, y)\<close> points. The selection code of \<open>masks.py\<close>
  reads the field \<open>area\<close> only.
\<close>

record region =
  index :: nat
  area :: nat
  coords :: "(nat \<times> nat) list"

text \<open>
  The exceptions the modelled code can raise. The two \<open>ValueError\<close>s of
  \<open>BiggestTissueBoxMask._regions\<close> carry the numbers their messages print.
\<close>

datatype value_error =
    NotGreaterThanZero int
  | MoreThanRegions nat int

datatype error =
    ValueError value_error
  | IndexError
  | ZeroDivisionError
  | TypeError

section \<open>Region selection\<close>

text \<open>
  \<open>sorted(xs, key=k, reverse=True)\<close>: Python's sort is stable, and with
  \<open>reverse=True\<close> the list is reversed, sorted ascending by the key with the stable
  sort, and reversed again, so that elements with equal keys keep their input order.
  \<open>sort_key\<close> is HOL's stable insertion sort.
\<close>

definition sorted_reverse :: "('a \<Rightarrow> 'k::linorder) \<Rightarrow> 'a list \<Rightarrow> 'a list" where
  "sorted_reverse k xs = rev (sort_key k (rev xs))"

text \<open>
  \<open>BiggestTissueBoxMask._regions(regions, n)\<close>, on the values of the lists: the two
  range checks in the order of the source, then the first \<open>n\<close> elements of the list
  sorted by area, largest first.
\<close>

definition BiggestTissueBoxMask_regions :: "region list \<Rightarrow> int \<Rightarrow> error + region list" where
  "BiggestTissueBoxMask_regions regions n =
     (if n < 1 then Inl (ValueError (NotGreaterThanZero n))
      else if n > int (length regions) then Inl (ValueError (MoreThanRegions (length regions) n))
      else let sorted_regions = sorted_reverse area regions
           in Inr (take (nat n) sorted_regions))"

subsection \<open>Region selection on a store of list objects\<close>

text \<open>
  Python lists are mutable objects passed by reference. To say what a call does to its
  argument, the lists live in a store: \<open>objs\<close> maps an address to the list held there,
  and \<open>fresh\<close> is the next address that \<open>alloc\<close> hands out.
\<close>

record store =
  objs :: "nat \<Rightarrow> region list option"
  fresh :: nat

definition alloc :: "store \<Rightarrow> region list \<Rightarrow> store \<times> nat" where
  "alloc s xs = (s\<lparr>objs := (objs s)(fresh s \<mapsto> xs), fresh := Suc (fresh s)\<rparr>, fresh s)"

text \<open>
  \<open>sorted(regions, key=..., reverse=True)\<close> and the slice \<open>sorted_regions[:n]\<close> each
  build a new list object and leave the list they read as it is.
\<close>

definition sorted_st :: "store \<Rightarrow> region list \<Rightarrow> store \<times> nat" where
  "sorted_st s xs = alloc s (sorted_reverse area xs)"

definition slice_st :: "store \<Rightarrow> region list \<Rightarrow> int \<Rightarrow> store \<times> nat" where
  "slice_st s xs n = alloc s (take (nat n) xs)"

text \<open>
  \<open>BiggestTissueBoxMask._regions\<close> on the store: \<open>regions\<close> is the address of the
  argument, the result is the store after the call and the address of the returned
  list. An address that holds no list makes \<open>len(regions)\<close> raise \<open>TypeError\<close>.
\<close>

definition BiggestTissueBoxMask_regions_st :: "store \<Rightarrow> nat \<Rightarrow> int \<Rightarrow> error + (store \<times> nat)" where
  "BiggestTissueBoxMask_regions_st s regions n =
     (if n < 1 then Inl (ValueError (NotGreaterThanZero n))
      else case objs s regions of
        None \<Rightarrow> Inl TypeError
      | Some xs \<Rightarrow>
          if n > int (length xs) then Inl (ValueError (MoreThanRegions (length xs) n))
          else (case sorted_st s xs of
                  (s1, sorted_regions) \<Rightarrow>
                    (case objs s1 sorted_regions of
                       None \<Rightarrow> Inl TypeError
                     | Some ys \<Rightarrow> Inr (slice_st s1 ys n))))"

section \<open>Binary masks\<close>

text \<open>A mask is a 2-D boolean array, held as the list of its rows.\<close>

type_synonym mask = "bool list list"

text \<open>
  What \<open>masks.py\<close> imports and calls but does not define is a parameter of the model:
  the thumbnail of a slide, the size of an image (PIL's \<open>Image.size\<close>, which is
  \<open>(width, height)\<close>), the tissue-mask filter composition, the connected-component
  labelling, the coordinates of a region and the test whether a pixel lies in the polygon
  of these coordinates.
\<close>

record ('slide, 'img, 'c) mask_env =
  thumbnail :: "'slide \<Rightarrow> 'img"
  image_size :: "'img \<Rightarrow> nat \<times> nat"
  tissue_mask_filters :: "'img \<Rightarrow> mask"
  regions_from_binary_mask :: "mask \<Rightarrow> region list"
  region_coordinates :: "region \<Rightarrow> 'c"
  polygon_fill :: "'c \<Rightarrow> nat \<Rightarrow> nat \<Rightarrow> bool"

text \<open>
  Modelled from the spec: \<open>histolab.util.polygon_to_mask_array\<close> is not among the
  sources. The specification's \<open>regionToMask(region, canvasSize)\<close> rasterizes the
  polygon into a binary mask of the given canvas size: a canvas of \<open>height\<close> rows and
  \<open>width\<close> columns whose pixel \<open>(x, y)\<close> is on when it lies in the polygon.
\<close>

definition polygon_to_mask_array :: "('c \<Rightarrow> nat \<Rightarrow> nat \<Rightarrow> bool) \<Rightarrow> nat \<times> nat \<Rightarrow> 'c \<Rightarrow> mask" where
  "polygon_to_mask_array inside dims vertices =
     (case dims of (w, h) \<Rightarrow> map (\<lambda>y. map (\<lambda>x. inside vertices x y) [0..<w]) [0..<h])"

text \<open>
  \<open>BiggestTissueBoxMask._mask\<close>, the function that \<open>lru_cache\<close> wraps. The index
  \<open>[0]\<close> on the result of \<open>_regions\<close> raises \<open>IndexError\<close> on an empty list.
\<close>

definition BiggestTissueBoxMask_mask :: "('slide, 'img, 'c) mask_env \<Rightarrow> 'slide \<Rightarrow> error + mask" where
  "BiggestTissueBoxMask_mask env slide =
     (let thumb = thumbnail env slide;
          filters = tissue_mask_filters env;
          thumb_mask = filters thumb;
          regions = regions_from_binary_mask env thumb_mask
      in case BiggestTissueBoxMask_regions regions 1 of
           Inl e \<Rightarrow> Inl e
         | Inr biggest \<Rightarrow>
             (case biggest of
                [] \<Rightarrow> Inl IndexError
              | biggest_region # _ \<Rightarrow>
                  let biggest_region_coordinates = region_coordinates env biggest_region;
                      thumb_bbox_mask = polygon_to_mask_array (polygon_fill env)
                                          (image_size env thumb) biggest_region_coordinates
                  in Inr thumb_bbox_mask))"

text \<open>\<open>TissueMask._mask\<close>, the function that \<open>lru_cache\<close> wraps.\<close>

definition TissueMask_mask :: "('slide, 'img, 'c) mask_env \<Rightarrow> 'slide \<Rightarrow> error + mask" where
  "TissueMask_mask env slide =
     (let thumb = thumbnail env slide;
          filters = tissue_mask_filters env;
          thumb_mask = filters thumb
      in Inr thumb_mask)"

text \<open>
  The shape of an array against an image size \<open>(width, height)\<close>: \<open>height\<close> rows of
  \<open>width\<close> pixels each.
\<close>

definition has_size :: "'a list list \<Rightarrow> nat \<times> nat \<Rightarrow> bool" where
  "has_size m dims = (case dims of (w, h) \<Rightarrow> length m = h \<and> list_all (\<lambda>row. length row = w) m)"

text \<open>
  Modelled from the spec: \<open>FiltersComposition\<close> and its \<open>tissue_mask_filters\<close> are not
  among the sources. In the specification a filter step is a stateless transformation
  from an image or a mask to an image or a mask, and a mask has the width and the height
  of the image it was derived from: a step gives every pixel of its input one pixel of
  its output, whose value depends on the whole input and on the position. The
  tissue-mask filters are three steps evaluated in order, each on the unmodified output
  of the one before: channel extraction (colour image to grey image), thresholding (grey
  image to mask) and morphological cleanup (mask to mask).
\<close>

definition filter_step :: "('a list list \<Rightarrow> nat \<Rightarrow> nat \<Rightarrow> 'b) \<Rightarrow> 'a list list \<Rightarrow> 'b list list" where
  "filter_step rule a = map (\<lambda>y. map (\<lambda>x. rule a x y) [0..<length (a ! y)]) [0..<length a]"

definition tissue_mask_composition ::
  "('p list list \<Rightarrow> nat \<Rightarrow> nat \<Rightarrow> nat) \<Rightarrow> (nat list list \<Rightarrow> nat \<Rightarrow> nat \<Rightarrow> bool)
     \<Rightarrow> (mask \<Rightarrow> nat \<Rightarrow> nat \<Rightarrow> bool) \<Rightarrow> 'p list list \<Rightarrow> mask" where
  "tissue_mask_composition channel threshold cleanup img =
     filter_step cleanup (filter_step threshold (filter_step channel img))"

subsection \<open>The cache\<close>

text \<open>
  \<open>functools.lru_cache(maxsize=100)\<close> as explicit state: the cached results with the
  most recently used first, and the two counters that \<open>cache_info()\<close> reports. A call
  looks the key up; on a hit it returns the stored value, moves the entry to the front
  and counts a hit, and the wrapped function is not called. On a miss it counts a miss
  and calls the wrapped function: an exception propagates and nothing is stored; a
  result is stored at the front, and the least recently used entry is dropped when the
  cache is full.
\<close>

record ('k, 'v) lru_cache =
  entries :: "('k \<times> 'v) list"
  hits :: nat
  misses :: nat

definition maxsize :: nat where
  "maxsize = 100"

definition empty_cache :: "('k, 'v) lru_cache" where
  "empty_cache = \<lparr>entries = [], hits = 0, misses = 0\<rparr>"

definition lru_cache_call ::
  "('k \<Rightarrow> error + 'v) \<Rightarrow> ('k, 'v) lru_cache \<Rightarrow> 'k \<Rightarrow> (error + 'v) \<times> ('k, 'v) lru_cache" where
  "lru_cache_call user_function c key =
     (case map_of (entries c) key of
        Some result \<Rightarrow>
          (Inr result,
           c\<lparr>entries := (key, result) # filter (\<lambda>kv. fst kv \<noteq> key) (entries c),
             hits := hits c + 1\<rparr>)
      | None \<Rightarrow>
          (case user_function key of
             Inl e \<Rightarrow> (Inl e, c\<lparr>misses := misses c + 1\<rparr>)
           | Inr result \<Rightarrow>
               (Inr result,
                c\<lparr>entries := take maxsize ((key, result) # entries c),
                  misses := misses c + 1\<rparr>)))"

text \<open>
  \<open>BinaryMask.__call__\<close> on the two strategies: \<open>self._mask(slide)\<close> goes through the
  cache of the class, whose key is the pair of the strategy object and the slide.
\<close>

definition BiggestTissueBoxMask_call ::
  "('slide, 'img, 'c) mask_env \<Rightarrow> (nat \<times> 'slide, mask) lru_cache \<Rightarrow> nat \<Rightarrow> 'slide
     \<Rightarrow> (error + mask) \<times> (nat \<times> 'slide, mask) lru_cache" where
  "BiggestTissueBoxMask_call env c self slide =
     lru_cache_call (\<lambda>key. BiggestTissueBoxMask_mask env (snd key)) c (self, slide)"

definition TissueMask_call ::
  "('slide, 'img, 'c) mask_env \<Rightarrow> (nat \<times> 'slide, mask) lru_cache \<Rightarrow> nat \<Rightarrow> 'slide
     \<Rightarrow> (error + mask) \<times> (nat \<times> 'slide, mask) lru_cache" where
  "TissueMask_call env c self slide =
     lru_cache_call (\<lambda>key. TissueMask_mask env (snd key)) c (self, slide)"

text \<open>
  A history of calls through one cache: the cache after the calls, made in order on the
  keys of the list.
\<close>

fun lru_cache_calls ::
  "('k \<Rightarrow> error + 'v) \<Rightarrow> ('k, 'v) lru_cache \<Rightarrow> 'k list \<Rightarrow> ('k, 'v) lru_cache" where
  "lru_cache_calls user_function c [] = c"
| "lru_cache_calls user_function c (key # keys) =
     lru_cache_calls user_function (snd (lru_cache_call user_function c key)) keys"

text \<open>
  A cache is consistent with the function it wraps when every stored result is what the
  function returns on the stored key. The empty cache is, and calls keep it so.
\<close>

definition cache_consistent :: "('k \<Rightarrow> error + 'v) \<Rightarrow> ('k, 'v) lru_cache \<Rightarrow> bool" where
  "cache_consistent f c = (\<forall>kv\<in>set (entries c). f (fst kv) = Inr (snd kv))"

section \<open>Scorers\<close>

text \<open>
  A tile: its image and its tissue ratio. Python floats are modelled as real numbers.
\<close>

record 'img tile =
  image_tile :: 'img
  tissue_ratio :: real

text \<open>
  The filters that \<open>scorer.py\<close> imports are parameters of the model, and so is
  \<open>np.array\<close> on the filtered image, read as the boolean array of its non-zero pixels.
\<close>

record 'img scorer_env =
  HematoxylinChannel :: "'img \<Rightarrow> 'img"
  YenThreshold_gt :: "'img \<Rightarrow> 'img"
  WhiteTopHat :: "'img \<Rightarrow> 'img"
  np_array :: "'img \<Rightarrow> mask"

text \<open>\<open>imf.Compose\<close> applies the filters of its list in order.\<close>

definition Compose :: "('a \<Rightarrow> 'a) list \<Rightarrow> 'a \<Rightarrow> 'a" where
  "Compose fs img = fold (\<lambda>f x. f x) fs img"

definition apply_filters :: "'img tile \<Rightarrow> ('img \<Rightarrow> 'img) \<Rightarrow> 'img tile" where
  "apply_filters t filters = t\<lparr>image_tile := filters (image_tile t)\<rparr>"

text \<open>
  Modelled from the spec: \<open>histolab.filters.util.mask_difference\<close> is not among the
  sources. The specification computes \<open>maskNuclei = maskRaw AND NOT maskClean\<close>, pixel
  by pixel, on two masks of the same shape.
\<close>

definition mask_difference :: "mask \<Rightarrow> mask \<Rightarrow> mask" where
  "mask_difference minuend subtrahend =
     map2 (\<lambda>row_m row_s. map2 (\<lambda>a b. a \<and> \<not> b) row_m row_s) minuend subtrahend"

text \<open>\<open>np.count_nonzero\<close> and \<open>ndarray.size\<close> on a boolean array.\<close>

definition count_nonzero :: "mask \<Rightarrow> nat" where
  "count_nonzero m = length (filter (\<lambda>b. b) (concat m))"

definition array_size :: "mask \<Rightarrow> nat" where
  "array_size m = length (concat m)"

text \<open>
  Both operands of \<open>/\<close> are Python integers: the division is true division and raises
  \<open>ZeroDivisionError\<close> on a zero divisor.
\<close>

definition true_divide :: "nat \<Rightarrow> nat \<Rightarrow> error + real" where
  "true_divide a b = (if b = 0 then Inl ZeroDivisionError else Inr (real a / real b))"

definition filters_raw_nuclei :: "'img scorer_env \<Rightarrow> 'img \<Rightarrow> 'img" where
  "filters_raw_nuclei env = Compose [HematoxylinChannel env, YenThreshold_gt env]"

definition filters_nuclei_cleaner :: "'img scorer_env \<Rightarrow> 'img \<Rightarrow> 'img" where
  "filters_nuclei_cleaner env =
     Compose [HematoxylinChannel env, YenThreshold_gt env, WhiteTopHat env]"

definition mask_raw_nuclei :: "'img scorer_env \<Rightarrow> 'img tile \<Rightarrow> mask" where
  "mask_raw_nuclei env t = np_array env (image_tile (apply_filters t (filters_raw_nuclei env)))"

definition mask_nuclei_clean :: "'img scorer_env \<Rightarrow> 'img tile \<Rightarrow> mask" where
  "mask_nuclei_clean env t =
     np_array env (image_tile (apply_filters t (filters_nuclei_cleaner env)))"

text \<open>\<open>NucleiScorer.__call__\<close>.\<close>

definition NucleiScorer_call :: "'img scorer_env \<Rightarrow> 'img tile \<Rightarrow> error + real" where
  "NucleiScorer_call env t =
     (let mask_nuclei = mask_difference (mask_raw_nuclei env t) (mask_nuclei_clean env t)
      in case true_divide (count_nonzero mask_nuclei) (array_size mask_nuclei) of
           Inl e \<Rightarrow> Inl e
         | Inr nuclei_ratio \<Rightarrow> Inr (nuclei_ratio * tanh (tissue_ratio t)))"

section \<open>Instances\<close>

text \<open>Small concrete inputs on which the theorems below are evaluated.\<close>

definition r_a :: region where "r_a = \<lparr>index = 1, area = 3, coords = [(0, 0), (0, 1), (1, 0)]\<rparr>"
definition r_b :: region where "r_b = \<lparr>index = 2, area = 5, coords = []\<rparr>"
definition r_c :: region where "r_c = \<lparr>index = 3, area = 3, coords = []\<rparr>"
definition r_d :: region where "r_d = \<lparr>index = 4, area = 5, coords = [(3, 3)]\<rparr>"

text \<open>
  Grey images as lists of rows. The threshold keeps the pixels above 100, the top-hat
  stand-in keeps the pixels of the first column, and the labelling stand-in returns one
  region per row that has a pixel on.
\<close>

definition ex_scorer_env :: "nat list list scorer_env" where
  "ex_scorer_env = \<lparr>HematoxylinChannel = (\<lambda>img. img),
     YenThreshold_gt = map (map (\<lambda>p. if p > 100 then 1 else 0)),
     WhiteTopHat = map (\<lambda>row. case row of [] \<Rightarrow> [] | p # ps \<Rightarrow> p # map (\<lambda>_. 0) ps),
     np_array = map (map (\<lambda>p. p \<noteq> 0))\<rparr>"

definition ex_tile :: "nat list list tile" where
  "ex_tile = \<lparr>image_tile = [[200, 150], [50, 120]], tissue_ratio = 1 / 2\<rparr>"

definition ex_tile_no_tissue :: "nat list list tile" where
  "ex_tile_no_tissue = \<lparr>image_tile = [[200, 150], [50, 120]], tissue_ratio = 0\<rparr>"

definition ex_tile_empty :: "nat list list tile" where
  "ex_tile_empty = \<lparr>image_tile = [], tissue_ratio = 1 / 2\<rparr>"

definition ex_tile_empty_rows :: "nat list list tile" where
  "ex_tile_empty_rows = \<lparr>image_tile = [[], []], tissue_ratio = 0\<rparr>"

definition ex_mask_env :: "(nat list list, nat list list, (nat \<times> nat) list) mask_env" where
  "ex_mask_env = \<lparr>thumbnail = (\<lambda>slide. slide),
     image_size = (\<lambda>img. (case img of [] \<Rightarrow> 0 | row # _ \<Rightarrow> length row, length img)),
     tissue_mask_filters = map (map (\<lambda>p. p < 200)),
     regions_from_binary_mask =
       (\<lambda>m. map (\<lambda>y. \<lparr>index = Suc y, area = length (filter (\<lambda>b. b) (m ! y)),
                       coords = map (\<lambda>x. (x, y)) (filter (\<lambda>x. m ! y ! x) [0..<length (m ! y)])\<rparr>)
              (filter (\<lambda>y. \<exists>b \<in> set (m ! y). b) [0..<length m])),
     region_coordinates = coords,
     polygon_fill = (\<lambda>vs x y. (x, y) \<in> set vs)\<rparr>"

definition ex_slide :: "nat list list" where
  "ex_slide = [[255, 10, 20], [30, 255, 255]]"

definition ex_slide_blank :: "nat list list" where
  "ex_slide_blank = [[255, 255, 255], [255, 255, 255]]"

text \<open>
  Two more environments on the same images: one whose filters find no tissue on the
  slide above, and one whose filters are the three-step chain (inverted channel,
  threshold above 55, cleanup of the pixels with no neighbour in their row).
\<close>

definition ex_mask_env_dark :: "(nat list list, nat list list, (nat \<times> nat) list) mask_env" where
  "ex_mask_env_dark = ex_mask_env\<lparr>tissue_mask_filters := map (map (\<lambda>p. p < 5))\<rparr>"

definition ex_filter_env :: "(nat list list, nat list list, (nat \<times> nat) list) mask_env" where
  "ex_filter_env = ex_mask_env\<lparr>tissue_mask_filters :=
     tissue_mask_composition (\<lambda>img x y. 255 - img ! y ! x) (\<lambda>g x y. g ! y ! x > 55)
       (\<lambda>m x y. m ! y ! x \<and> (x > 0 \<and> m ! y ! (x - 1) \<or> Suc x < length (m ! y) \<and> m ! y ! Suc x))\<rparr>"

definition ex_store :: store where
  "ex_store = \<lparr>objs = (\<lambda>a. if a = 0 then Some [r_a, r_b, r_c, r_d] else None), fresh = 1\<rparr>"

section \<open>Region selection: the sort\<close>

lemma sorted_reverse_mset: "mset (sorted_reverse k xs) = mset xs"
  by (simp add: sorted_reverse_def)

lemma sorted_reverse_length: "length (sorted_reverse k xs) = length xs"
  by (simp add: sorted_reverse_def)

lemma sorted_reverse_descending:
  "sorted_wrt (\<lambda>x y. k x \<ge> k y) (sorted_reverse k xs)"
proof -
  have "sorted (map k (sort_key k (rev xs)))" by simp
  then have "sorted_wrt (\<lambda>x y. k x \<le> k y) (sort_key k (rev xs))"
    by (simp add: sorted_map)
  then show ?thesis
    by (simp add: sorted_reverse_def sorted_wrt_rev)
qed

lemma sorted_reverse_stable:
  "filter (\<lambda>x. k x = a) (sorted_reverse k xs) = filter (\<lambda>x. k x = a) xs"
  by (simp add: sorted_reverse_def rev_filter [symmetric] sort_key_stable)

lemma filter_take_prefix:
  "filter P (take n ys) = take (length (filter P (take n ys))) (filter P ys)"
proof -
  have "filter P ys = filter P (take n ys) @ filter P (drop n ys)"
    by (metis append_take_drop_id filter_append)
  then show ?thesis by simp
qed

lemma descending_take_drop:
  assumes "sorted_wrt (\<lambda>x y. k x \<ge> k y) ys"
  shows "\<forall>r\<in>set (take n ys). \<forall>s\<in>set (drop n ys). k s \<le> k r"
proof -
  have "sorted_wrt (\<lambda>x y. k x \<ge> k y) (take n ys @ drop n ys)"
    using assms by simp
  then show ?thesis
    unfolding sorted_wrt_append by blast
qed

lemma descending_take:
  assumes "sorted_wrt (\<lambda>x y. k x \<ge> k y) ys"
  shows "sorted_wrt (\<lambda>x y. k x \<ge> k y) (take n ys)"
proof -
  have "sorted_wrt (\<lambda>x y. k x \<ge> k y) (take n ys @ drop n ys)"
    using assms by simp
  then show ?thesis
    unfolding sorted_wrt_append by blast
qed

lemma regions_in_range:
  assumes "1 \<le> n" and "n \<le> int (length regions)"
  shows "BiggestTissueBoxMask_regions regions n = Inr (take (nat n) (sorted_reverse area regions))"
  using assms by (simp add: BiggestTissueBoxMask_regions_def)

lemma ex_regions: "BiggestTissueBoxMask_regions [r_a, r_b, r_c, r_d] 3 = Inr [r_b, r_d, r_a]"
  by (simp add: BiggestTissueBoxMask_regions_def sorted_reverse_def r_a_def r_b_def r_c_def r_d_def)

section \<open>Region selection: the result\<close>

text \<open>
  C2. For every list of regions and every \<open>n\<close> with \<open>1 \<le> n \<le> len(regions)\<close>,
  \<open>_regions\<close> returns exactly \<open>n\<close> regions, in descending order of area (for all
  \<open>i < j\<close> in the result, \<open>area[i] \<ge> area[j]\<close>); they are the \<open>n\<close> largest: the
  input splits into the result and a rest, and no region of the rest has a larger area
  than a region of the result. Ties are broken by the position in the input list, the
  secondary key of Python's stable sort: among the regions of one area, the result holds
  the first ones of the input, in their input order. On the four regions of areas
  3, 5, 3, 5 and \<open>n = 3\<close> the result is the second, the fourth and the first.
\<close>

theorem regions_top_n:
  assumes "1 \<le> n" and "n \<le> int (length regions)"
  shows "\<exists>res rest. BiggestTissueBoxMask_regions regions n = Inr res
      \<and> length res = nat n
      \<and> (\<forall>i j. i < j \<and> j < length res \<longrightarrow> area (res ! i) \<ge> area (res ! j))
      \<and> mset regions = mset res + mset rest
      \<and> (\<forall>r\<in>set res. \<forall>s\<in>set rest. area s \<le> area r)
      \<and> (\<forall>a. \<exists>m. filter (\<lambda>r. area r = a) res = take m (filter (\<lambda>r. area r = a) regions))"
proof -
  define srt where "srt = sorted_reverse area regions"
  define res where "res = take (nat n) srt"
  define rest where "rest = drop (nat n) srt"
  have desc: "sorted_wrt (\<lambda>x y. area x \<ge> area y) srt"
    unfolding srt_def by (rule sorted_reverse_descending)
  have run: "BiggestTissueBoxMask_regions regions n = Inr res"
    unfolding res_def srt_def using assms by (rule regions_in_range)
  have len: "length res = nat n"
    unfolding res_def srt_def using assms by (simp add: sorted_reverse_length)
  have "sorted_wrt (\<lambda>x y. area x \<ge> area y) res"
    unfolding res_def using desc by (rule descending_take)
  then have ord: "\<forall>i j. i < j \<and> j < length res \<longrightarrow> area (res ! i) \<ge> area (res ! j)"
    by (simp add: sorted_wrt_iff_nth_less)
  have "mset srt = mset res + mset rest"
    unfolding res_def rest_def by (metis append_take_drop_id mset_append)
  then have split: "mset regions = mset res + mset rest"
    unfolding srt_def by (simp add: sorted_reverse_mset)
  have big: "\<forall>r\<in>set res. \<forall>s\<in>set rest. area s \<le> area r"
    unfolding res_def rest_def using desc by (rule descending_take_drop)
  have ties: "\<forall>a. \<exists>m. filter (\<lambda>r. area r = a) res = take m (filter (\<lambda>r. area r = a) regions)"
  proof
    fix a
    have "filter (\<lambda>r. area r = a) res
        = take (length (filter (\<lambda>r. area r = a) res)) (filter (\<lambda>r. area r = a) srt)"
      unfolding res_def by (rule filter_take_prefix)
    also have "filter (\<lambda>r. area r = a) srt = filter (\<lambda>r. area r = a) regions"
      unfolding srt_def by (rule sorted_reverse_stable)
    finally show "\<exists>m. filter (\<lambda>r. area r = a) res = take m (filter (\<lambda>r. area r = a) regions)"
      by blast
  qed
  from run len ord split big ties show ?thesis by blast
qed

theorem regions_top_n_witness:
  "(1::int) \<le> 3 \<and> (3::int) \<le> int (length [r_a, r_b, r_c, r_d])
   \<and> (\<exists>res rest. BiggestTissueBoxMask_regions [r_a, r_b, r_c, r_d] 3 = Inr res
      \<and> length res = nat 3
      \<and> (\<forall>i j. i < j \<and> j < length res \<longrightarrow> area (res ! i) \<ge> area (res ! j))
      \<and> mset [r_a, r_b, r_c, r_d] = mset res + mset rest
      \<and> (\<forall>r\<in>set res. \<forall>s\<in>set rest. area s \<le> area r)
      \<and> (\<forall>a. \<exists>m. filter (\<lambda>r. area r = a) res
                    = take m (filter (\<lambda>r. area r = a) [r_a, r_b, r_c, r_d])))
   \<and> BiggestTissueBoxMask_regions [r_a, r_b, r_c, r_d] 3 = Inr [r_b, r_d, r_a]"
proof -
  have h1: "(1::int) \<le> 3" by simp
  have h2: "(3::int) \<le> int (length [r_a, r_b, r_c, r_d])" by simp
  show ?thesis
    using h1 h2 regions_top_n [OF h1 h2] ex_regions by blast
qed

section \<open>Region selection: errors\<close>

text \<open>
  C3. \<open>_regions\<close> raises \<open>ValueError\<close> exactly when \<open>n < 1\<close> or \<open>n\<close> exceeds the
  number of regions. Nothing is clamped and nothing is retried: a list is returned
  exactly when \<open>n\<close> is in range, and then it has \<open>n\<close> elements. In particular one
  region with \<open>n = 2\<close> fails, and so does \<open>n = 0\<close>.
\<close>

theorem regions_value_error_iff:
  "((\<exists>e. BiggestTissueBoxMask_regions regions n = Inl (ValueError e))
      \<longleftrightarrow> (n < 1 \<or> n > int (length regions)))
   \<and> ((\<exists>res. BiggestTissueBoxMask_regions regions n = Inr res \<and> int (length res) = n)
      \<longleftrightarrow> \<not> (n < 1 \<or> n > int (length regions)))
   \<and> BiggestTissueBoxMask_regions [r1] 2 = Inl (ValueError (MoreThanRegions 1 2))
   \<and> BiggestTissueBoxMask_regions regions 0 = Inl (ValueError (NotGreaterThanZero 0))"
  by (auto simp: BiggestTissueBoxMask_regions_def sorted_reverse_def Let_def)

theorem regions_value_error_iff_witness:
  "BiggestTissueBoxMask_regions [r_a] 2 = Inl (ValueError (MoreThanRegions 1 2))
   \<and> (\<exists>e. BiggestTissueBoxMask_regions [r_a, r_b] (- 1) = Inl (ValueError e))
   \<and> (\<exists>res. BiggestTissueBoxMask_regions [r_a, r_b] 2 = Inr res \<and> int (length res) = 2)"
  using regions_value_error_iff [of "[r_a, r_b]" "- 1" r_a]
    regions_value_error_iff [of "[r_a, r_b]" 2 r_a]
  by simp

section \<open>Region selection: the argument\<close>

lemma alloc_frame:
  assumes "alloc s xs = (s', r)"
  shows "r = fresh s" and "fresh s' = Suc (fresh s)" and "objs s' r = Some xs"
    and "\<forall>b. b \<noteq> fresh s \<longrightarrow> objs s' b = objs s b"
  using assms by (auto simp: alloc_def)

text \<open>
  C10. \<open>_regions\<close> does not mutate its input. For every store, every list object
  \<open>regions\<close> of it and every \<open>n\<close> in range, the call returns; after it the list at
  \<open>regions\<close> holds the same regions in the same order, and so does every other object
  that existed before. The returned list is a new object, at an address that was not
  allocated before the call, and it holds the result of the selection.
\<close>

theorem regions_input_unchanged:
  assumes "objs s regions = Some xs" and "regions < fresh s"
      and "1 \<le> n" and "n \<le> int (length xs)"
  shows "\<exists>s' r res. BiggestTissueBoxMask_regions_st s regions n = Inr (s', r)
          \<and> objs s' regions = Some xs
          \<and> (\<forall>b. b < fresh s \<longrightarrow> objs s' b = objs s b)
          \<and> r \<noteq> regions \<and> fresh s \<le> r
          \<and> objs s' r = Some res
          \<and> BiggestTissueBoxMask_regions xs n = Inr res"
proof -
  obtain s1 a1 where st1: "sorted_st s xs = (s1, a1)"
    by (cases "sorted_st s xs")
  then have al1: "alloc s (sorted_reverse area xs) = (s1, a1)"
    by (simp add: sorted_st_def)
  note f1 = alloc_frame [OF al1]
  obtain s2 a2 where st2: "slice_st s1 (sorted_reverse area xs) n = (s2, a2)"
    by (cases "slice_st s1 (sorted_reverse area xs) n")
  then have al2: "alloc s1 (take (nat n) (sorted_reverse area xs)) = (s2, a2)"
    by (simp add: slice_st_def)
  note f2 = alloc_frame [OF al2]
  have run: "BiggestTissueBoxMask_regions_st s regions n = Inr (s2, a2)"
    using assms st1 st2 f1(3) by (simp add: BiggestTissueBoxMask_regions_st_def)
  have old: "objs s2 b = objs s b" if "b < fresh s" for b
    using that f1 f2 by simp
  have "a2 = Suc (fresh s)"
    using f1 f2 by simp
  then have fresh: "a2 \<noteq> regions" "fresh s \<le> a2"
    using assms(2) by simp_all
  have val: "BiggestTissueBoxMask_regions xs n = Inr (take (nat n) (sorted_reverse area xs))"
    using assms(3,4) by (simp add: BiggestTissueBoxMask_regions_def)
  have "objs s2 regions = Some xs"
    using old [OF assms(2)] assms(1) by simp
  with run old fresh f2(1,3) val show ?thesis
    by blast
qed

theorem regions_input_unchanged_witness:
  "\<exists>s' r. BiggestTissueBoxMask_regions_st ex_store 0 3 = Inr (s', r)
      \<and> objs s' 0 = Some [r_a, r_b, r_c, r_d]
      \<and> r \<noteq> 0
      \<and> objs s' r = Some [r_b, r_d, r_a]"
proof -
  have h1: "objs ex_store 0 = Some [r_a, r_b, r_c, r_d]"
    and h2: "0 < fresh ex_store"
    by (simp_all add: ex_store_def)
  have h3: "(1::int) \<le> 3" and h4: "(3::int) \<le> int (length [r_a, r_b, r_c, r_d])"
    by simp_all
  have v: "BiggestTissueBoxMask_regions [r_a, r_b, r_c, r_d] 3 = Inr [r_b, r_d, r_a]"
    by (simp add: BiggestTissueBoxMask_regions_def sorted_reverse_def r_a_def r_b_def r_c_def r_d_def)
  show ?thesis
    using regions_input_unchanged [OF h1 h2 h3 h4] v by auto
qed

section \<open>The cache\<close>

lemma cache_consistent_empty: "cache_consistent f empty_cache"
  by (simp add: cache_consistent_def empty_cache_def)

lemma lru_cache_call_hit:
  assumes "map_of (entries c) key = Some v"
  shows "lru_cache_call f c key =
           (Inr v, c\<lparr>entries := (key, v) # filter (\<lambda>kv. fst kv \<noteq> key) (entries c),
                     hits := hits c + 1\<rparr>)"
  using assms by (simp add: lru_cache_call_def)

lemma lru_cache_call_consistent:
  assumes "cache_consistent f c"
  shows "cache_consistent f (snd (lru_cache_call f c key))"
proof (cases "map_of (entries c) key")
  case None
  show ?thesis
  proof (cases "f key")
    case (Inl e)
    with None assms show ?thesis
      by (simp add: lru_cache_call_def cache_consistent_def)
  next
    case (Inr v)
    have "set (take maxsize ((key, v) # entries c)) \<subseteq> insert (key, v) (set (entries c))"
      using set_take_subset [of maxsize "(key, v) # entries c"] by simp
    with None Inr assms show ?thesis
      by (auto simp: lru_cache_call_def cache_consistent_def)
  qed
next
  case (Some v)
  then have "(key, v) \<in> set (entries c)"
    by (rule map_of_SomeD)
  with Some assms show ?thesis
    by (auto simp: lru_cache_call_def cache_consistent_def)
qed

lemma lru_cache_calls_consistent:
  "cache_consistent f c \<Longrightarrow> cache_consistent f (lru_cache_calls f c keys)"
  by (induction keys arbitrary: c) (simp_all add: lru_cache_call_consistent)

lemma lru_cache_call_result:
  assumes "cache_consistent f c"
  shows "fst (lru_cache_call f c key) = f key"
proof (cases "map_of (entries c) key")
  case None
  then show ?thesis
    by (simp add: lru_cache_call_def split: sum.splits)
next
  case (Some v)
  then have "(key, v) \<in> set (entries c)"
    by (rule map_of_SomeD)
  then have "f key = Inr v"
    using assms by (auto simp: cache_consistent_def)
  with Some show ?thesis
    by (simp add: lru_cache_call_def)
qed

lemma lru_cache_call_stores:
  assumes "lru_cache_call f c key = (Inr v, c1)"
  shows "map_of (entries c1) key = Some v"
  using assms
  by (auto simp: lru_cache_call_def maxsize_def split: option.splits sum.splits)

lemma lru_cache_call_first:
  assumes "lru_cache_call f c key = (Inr v, c1)"
  shows "key \<notin> fst ` set (entries c) \<longrightarrow> misses c1 = misses c + 1 \<and> hits c1 = hits c"
    and "key \<in> fst ` set (entries c) \<longrightarrow> misses c1 = misses c \<and> hits c1 = hits c + 1"
proof -
  show "key \<notin> fst ` set (entries c) \<longrightarrow> misses c1 = misses c + 1 \<and> hits c1 = hits c"
  proof
    assume "key \<notin> fst ` set (entries c)"
    then have "map_of (entries c) key = None"
      by (simp add: map_of_eq_None_iff)
    with assms show "misses c1 = misses c + 1 \<and> hits c1 = hits c"
      by (auto simp: lru_cache_call_def split: sum.splits)
  qed
  show "key \<in> fst ` set (entries c) \<longrightarrow> misses c1 = misses c \<and> hits c1 = hits c + 1"
  proof
    assume "key \<in> fst ` set (entries c)"
    then obtain w where "map_of (entries c) key = Some w"
      by (metis map_of_eq_None_iff not_Some_eq)
    with assms show "misses c1 = misses c \<and> hits c1 = hits c + 1"
      by (auto simp: lru_cache_call_def)
  qed
qed

lemma lru_cache_call_hit_full:
  assumes "map_of (entries c) key = Some v"
  shows "\<exists>c2. lru_cache_call f c key = (Inr v, c2) \<and> misses c2 = misses c
            \<and> hits c2 = hits c + 1 \<and> map_of (entries c2) key = Some v"
  using assms by (simp add: lru_cache_call_def)

lemma lru_cache_calls_repeat:
  assumes "map_of (entries c) key = Some v"
  shows "misses (lru_cache_calls f c (replicate n key)) = misses c
       \<and> hits (lru_cache_calls f c (replicate n key)) = hits c + n
       \<and> map_of (entries (lru_cache_calls f c (replicate n key))) key = Some v"
  using assms
proof (induction n arbitrary: c)
  case 0
  then show ?case by simp
next
  case (Suc n)
  obtain c2 where step: "lru_cache_call f c key = (Inr v, c2)" "misses c2 = misses c"
      "hits c2 = hits c + 1" "map_of (entries c2) key = Some v"
    using lru_cache_call_hit_full [OF Suc.prems, of f] by blast
  from Suc.IH [OF step(4)] step show ?case by simp
qed

section \<open>Masks\<close>

lemma polygon_to_mask_array_size: "has_size (polygon_to_mask_array inside dims vertices) dims"
  by (cases dims) (simp add: polygon_to_mask_array_def has_size_def list_all_iff)

lemma BiggestTissueBoxMask_mask_empty:
  assumes "regions_from_binary_mask env (tissue_mask_filters env (thumbnail env slide)) = []"
  shows "BiggestTissueBoxMask_mask env slide = Inl (ValueError (MoreThanRegions 0 1))"
  using assms by (simp add: BiggestTissueBoxMask_mask_def BiggestTissueBoxMask_regions_def)

lemma BiggestTissueBoxMask_mask_nonempty:
  assumes "regions_from_binary_mask env (tissue_mask_filters env (thumbnail env slide)) \<noteq> []"
  shows "\<exists>r. BiggestTissueBoxMask_regions
                (regions_from_binary_mask env (tissue_mask_filters env (thumbnail env slide))) 1 = Inr [r]
           \<and> BiggestTissueBoxMask_mask env slide =
               Inr (polygon_to_mask_array (polygon_fill env) (image_size env (thumbnail env slide))
                      (region_coordinates env r))"
proof -
  let ?rs = "regions_from_binary_mask env (tissue_mask_filters env (thumbnail env slide))"
  have "length (sorted_reverse area ?rs) = length ?rs"
    by (simp add: sorted_reverse_def)
  then have "sorted_reverse area ?rs \<noteq> []"
    using assms by auto
  then obtain r rest where srt: "sorted_reverse area ?rs = r # rest"
    by (cases "sorted_reverse area ?rs") auto
  have "1 \<le> int (length ?rs)"
    using assms by (cases ?rs) simp_all
  then have run: "BiggestTissueBoxMask_regions ?rs 1 = Inr [r]"
    using assms by (simp add: BiggestTissueBoxMask_regions_def srt)
  then show ?thesis
    by (auto simp: BiggestTissueBoxMask_mask_def Let_def)
qed

lemma filter_step_size:
  assumes "has_size a dims"
  shows "has_size (filter_step rule a) dims"
proof (cases dims)
  case (Pair w h)
  with assms have len: "length a = h" and rows: "\<forall>row\<in>set a. length row = w"
    by (simp_all add: has_size_def list_all_iff)
  have "length (a ! y) = w" if "y < h" for y
    using that len rows by simp
  then show ?thesis
    using Pair len by (simp add: has_size_def filter_step_def list_all_iff)
qed

lemma tissue_mask_composition_size:
  assumes "has_size img dims"
  shows "has_size (tissue_mask_composition channel threshold cleanup img) dims"
  unfolding tissue_mask_composition_def
  by (intro filter_step_size assms)

lemma regions_first_largest:
  assumes "BiggestTissueBoxMask_regions rs 1 = Inr [r]"
  shows "r \<in> set rs \<and> (\<forall>s\<in>set rs. area s \<le> area r)"
proof -
  have srt: "take 1 (sorted_reverse area rs) = [r]"
    using assms by (simp add: BiggestTissueBoxMask_regions_def split: if_splits)
  then obtain rest where split: "sorted_reverse area rs = r # rest"
    by (cases "sorted_reverse area rs") simp_all
  have "set (sorted_reverse area rs) = set rs"
    using sorted_reverse_mset [of area rs] by (rule mset_eq_setD)
  then have mem: "set rs = insert r (set rest)"
    using split by simp
  have "sorted_wrt (\<lambda>x y. area x \<ge> area y) (r # rest)"
    using sorted_reverse_descending [of area rs] split by simp
  then have "\<forall>s\<in>set rest. area s \<le> area r"
    by simp
  with mem show ?thesis by simp
qed

lemma BiggestTissueBoxMask_call_reachable:
  "fst (BiggestTissueBoxMask_call env
          (lru_cache_calls (\<lambda>key. BiggestTissueBoxMask_mask env (snd key)) empty_cache history)
          self slide)
     = BiggestTissueBoxMask_mask env slide"
proof -
  let ?f = "\<lambda>key. BiggestTissueBoxMask_mask env (snd (key :: nat \<times> 'a))"
  have "cache_consistent ?f (lru_cache_calls ?f empty_cache history)"
    by (rule lru_cache_calls_consistent) (rule cache_consistent_empty)
  then have "fst (lru_cache_call ?f (lru_cache_calls ?f empty_cache history) (self, slide))
               = ?f (self, slide)"
    by (rule lru_cache_call_result)
  then show ?thesis
    by (simp add: BiggestTissueBoxMask_call_def)
qed

lemma TissueMask_call_reachable:
  "fst (TissueMask_call env
          (lru_cache_calls (\<lambda>key. TissueMask_mask env (snd key)) empty_cache history)
          self slide)
     = TissueMask_mask env slide"
proof -
  let ?f = "\<lambda>key. TissueMask_mask env (snd (key :: nat \<times> 'a))"
  have "cache_consistent ?f (lru_cache_calls ?f empty_cache history)"
    by (rule lru_cache_calls_consistent) (rule cache_consistent_empty)
  then have "fst (lru_cache_call ?f (lru_cache_calls ?f empty_cache history) (self, slide))
               = ?f (self, slide)"
    by (rule lru_cache_call_result)
  then show ?thesis
    by (simp add: TissueMask_call_def)
qed

lemma ex_thumb_mask:
  "tissue_mask_filters ex_mask_env (thumbnail ex_mask_env ex_slide)
     = [[False, True, True], [True, False, False]]"
  "tissue_mask_filters ex_mask_env (thumbnail ex_mask_env ex_slide_blank)
     = [[False, False, False], [False, False, False]]"
  "image_size ex_mask_env (thumbnail ex_mask_env ex_slide) = (3, 2)"
  by (simp_all add: ex_mask_env_def ex_slide_def ex_slide_blank_def)

lemma ex_regions_of_mask:
  "regions_from_binary_mask ex_mask_env [[False, True, True], [True, False, False]]
     = [\<lparr>index = 1, area = 2, coords = [(1, 0), (2, 0)]\<rparr>,
        \<lparr>index = 2, area = 1, coords = [(0, 1)]\<rparr>]"
  "regions_from_binary_mask ex_mask_env [[False, False, False], [False, False, False]] = []"
  by code_simp+

lemma ex_box_mask:
  "BiggestTissueBoxMask_mask ex_mask_env ex_slide = Inr [[False, True, True], [False, False, False]]"
  by code_simp

lemma ex_dark_no_mask:
  "BiggestTissueBoxMask_mask ex_mask_env_dark ex_slide = Inl (ValueError (MoreThanRegions 0 1))"
  by code_simp

lemma ex_filter_masks:
  "TissueMask_mask ex_filter_env ex_slide = Inr [[False, True, True], [False, False, False]]"
  "BiggestTissueBoxMask_mask ex_filter_env ex_slide = Inr [[False, True, True], [False, False, False]]"
  "image_size ex_filter_env (thumbnail ex_filter_env ex_slide) = (3, 2)"
  "thumbnail ex_filter_env ex_slide = [[255, 10, 20], [30, 255, 255]]"
  by code_simp+

lemma ex_tissue_mask:
  "TissueMask_mask ex_mask_env ex_slide = Inr [[False, True, True], [True, False, False]]"
  by (simp add: TissueMask_mask_def ex_thumb_mask)

text \<open>
  C4. When the tissue mask of the thumbnail has no connected region, the mask of the
  biggest tissue box is not computed: \<open>_regions\<close> raises its \<open>ValueError\<close> for
  \<open>n = 1\<close> on the empty list, \<open>_mask\<close> lets it through, and so does every call through
  the cache, whatever calls were made before. No mask, empty or other, is returned.
\<close>

theorem biggest_box_mask_no_regions:
  assumes "regions_from_binary_mask env (tissue_mask_filters env (thumbnail env slide)) = []"
  shows "BiggestTissueBoxMask_regions
           (regions_from_binary_mask env (tissue_mask_filters env (thumbnail env slide))) 1
           = Inl (ValueError (MoreThanRegions 0 1))
       \<and> BiggestTissueBoxMask_mask env slide = Inl (ValueError (MoreThanRegions 0 1))
       \<and> (\<forall>history self.
            fst (BiggestTissueBoxMask_call env
                   (lru_cache_calls (\<lambda>key. BiggestTissueBoxMask_mask env (snd key)) empty_cache history)
                   self slide)
            = Inl (ValueError (MoreThanRegions 0 1)))"
proof -
  have direct: "BiggestTissueBoxMask_mask env slide = Inl (ValueError (MoreThanRegions 0 1))"
    using assms by (rule BiggestTissueBoxMask_mask_empty)
  have sel: "BiggestTissueBoxMask_regions
           (regions_from_binary_mask env (tissue_mask_filters env (thumbnail env slide))) 1
           = Inl (ValueError (MoreThanRegions 0 1))"
    using assms by (simp add: BiggestTissueBoxMask_regions_def)
  from sel direct show ?thesis
    by (simp add: BiggestTissueBoxMask_call_reachable)
qed

theorem biggest_box_mask_no_regions_witness:
  "regions_from_binary_mask ex_mask_env
     (tissue_mask_filters ex_mask_env (thumbnail ex_mask_env ex_slide_blank)) = []
   \<and> BiggestTissueBoxMask_mask ex_mask_env ex_slide_blank = Inl (ValueError (MoreThanRegions 0 1))
   \<and> fst (BiggestTissueBoxMask_call ex_mask_env
            (lru_cache_calls (\<lambda>key. BiggestTissueBoxMask_mask ex_mask_env (snd key)) empty_cache
               [(0, ex_slide), (0, ex_slide_blank)])
            0 ex_slide_blank)
       = Inl (ValueError (MoreThanRegions 0 1))"
proof -
  have h: "regions_from_binary_mask ex_mask_env
     (tissue_mask_filters ex_mask_env (thumbnail ex_mask_env ex_slide_blank)) = []"
    by (simp add: ex_thumb_mask ex_regions_of_mask)
  show ?thesis
    using h biggest_box_mask_no_regions [OF h] by blast
qed

text \<open>
  C5. On a slide whose tissue mask has a region, and from any cache that calls have
  built up from the empty one, a call returns the mask that \<open>_mask\<close> computes without
  the cache, and stores it under the key of the strategy object and the slide. The call
  is a miss, counted once, when the key was not in the cache, and a hit when it was.
  The next call on the same object and slide is a hit: it returns the stored mask,
  counts no miss and does not depend on the wrapped function at all, so the mask is not
  computed again; the same holds for any number of calls in a row. In any cache that
  holds the key, a call returns the stored mask and counts no miss.
\<close>

theorem biggest_box_mask_cached:
  fixes env :: "('slide, 'img, 'c) mask_env"
  assumes "c = lru_cache_calls (\<lambda>key. BiggestTissueBoxMask_mask env (snd key)) empty_cache history"
      and "regions_from_binary_mask env (tissue_mask_filters env (thumbnail env slide)) \<noteq> []"
  shows "(\<exists>m c1.
            BiggestTissueBoxMask_call env c self slide = (Inr m, c1)
          \<and> BiggestTissueBoxMask_mask env slide = Inr m
          \<and> map_of (entries c1) (self, slide) = Some m
          \<and> ((self, slide) \<notin> fst ` set (entries c)
                \<longrightarrow> misses c1 = misses c + 1 \<and> hits c1 = hits c)
          \<and> ((self, slide) \<in> fst ` set (entries c)
                \<longrightarrow> misses c1 = misses c \<and> hits c1 = hits c + 1)
          \<and> (\<forall>env' :: ('slide, 'img, 'c) mask_env. \<exists>c2.
                BiggestTissueBoxMask_call env' c1 self slide = (Inr m, c2)
              \<and> misses c2 = misses c1 \<and> hits c2 = hits c1 + 1
              \<and> map_of (entries c2) (self, slide) = Some m)
          \<and> (\<forall>(env' :: ('slide, 'img, 'c) mask_env) n.
                misses (lru_cache_calls (\<lambda>key. BiggestTissueBoxMask_mask env' (snd key)) c1
                          (replicate n (self, slide))) = misses c1
              \<and> hits (lru_cache_calls (\<lambda>key. BiggestTissueBoxMask_mask env' (snd key)) c1
                          (replicate n (self, slide))) = hits c1 + n))
       \<and> (\<forall>(env' :: ('slide, 'img, 'c) mask_env) c' v.
             map_of (entries c') (self, slide) = Some v
             \<longrightarrow> fst (BiggestTissueBoxMask_call env' c' self slide) = Inr v
               \<and> misses (snd (BiggestTissueBoxMask_call env' c' self slide)) = misses c')"
proof -
  let ?f = "\<lambda>key. BiggestTissueBoxMask_mask env (snd (key :: nat \<times> 'slide))"
  obtain m where direct: "BiggestTissueBoxMask_mask env slide = Inr m"
    using BiggestTissueBoxMask_mask_nonempty [OF assms(2)] by blast
  have "cache_consistent ?f c"
    unfolding assms(1) by (rule lru_cache_calls_consistent) (rule cache_consistent_empty)
  then have "fst (lru_cache_call ?f c (self, slide)) = ?f (self, slide)"
    by (rule lru_cache_call_result)
  then have first: "fst (lru_cache_call ?f c (self, slide)) = Inr m"
    by (simp add: direct)
  define c1 where "c1 = snd (lru_cache_call ?f c (self, slide))"
  have call1: "lru_cache_call ?f c (self, slide) = (Inr m, c1)"
    using first unfolding c1_def by (simp add: prod_eq_iff)
  have stored: "map_of (entries c1) (self, slide) = Some m"
    using call1 by (rule lru_cache_call_stores)
  note counts = lru_cache_call_first [OF call1]
  have call1': "BiggestTissueBoxMask_call env c self slide = (Inr m, c1)"
    unfolding BiggestTissueBoxMask_call_def by (rule call1)
  have again: "\<forall>env' :: ('slide, 'img, 'c) mask_env. \<exists>c2.
                BiggestTissueBoxMask_call env' c1 self slide = (Inr m, c2)
              \<and> misses c2 = misses c1 \<and> hits c2 = hits c1 + 1
              \<and> map_of (entries c2) (self, slide) = Some m"
    unfolding BiggestTissueBoxMask_call_def
    using stored by (intro allI) (rule lru_cache_call_hit_full)
  have rep: "\<forall>(env' :: ('slide, 'img, 'c) mask_env) n.
                misses (lru_cache_calls (\<lambda>key. BiggestTissueBoxMask_mask env' (snd key)) c1
                          (replicate n (self, slide))) = misses c1
              \<and> hits (lru_cache_calls (\<lambda>key. BiggestTissueBoxMask_mask env' (snd key)) c1
                          (replicate n (self, slide))) = hits c1 + n"
    using lru_cache_calls_repeat [OF stored] by blast
  have held: "\<forall>(env' :: ('slide, 'img, 'c) mask_env) c' v.
             map_of (entries c') (self, slide) = Some v
             \<longrightarrow> fst (BiggestTissueBoxMask_call env' c' self slide) = Inr v
               \<and> misses (snd (BiggestTissueBoxMask_call env' c' self slide)) = misses c'"
    by (simp add: BiggestTissueBoxMask_call_def lru_cache_call_hit)
  show ?thesis
    by (intro exI [of _ m] exI [of _ c1] conjI call1' direct stored counts again rep held)
qed

theorem biggest_box_mask_cached_witness:
  "\<exists>c1 c2 c3.
      BiggestTissueBoxMask_call ex_mask_env empty_cache 7 ex_slide
        = (Inr [[False, True, True], [False, False, False]], c1)
    \<and> misses c1 = 1 \<and> hits c1 = 0
    \<and> BiggestTissueBoxMask_call ex_mask_env c1 7 ex_slide
        = (Inr [[False, True, True], [False, False, False]], c2)
    \<and> misses c2 = 1 \<and> hits c2 = 1
    \<and> BiggestTissueBoxMask_mask ex_mask_env_dark ex_slide = Inl (ValueError (MoreThanRegions 0 1))
    \<and> BiggestTissueBoxMask_call ex_mask_env_dark c1 7 ex_slide
        = (Inr [[False, True, True], [False, False, False]], c3)
    \<and> misses c3 = 1 \<and> hits c3 = 1"
proof -
  let ?M = "[[False, True, True], [False, False, False]]"
  have h1: "(empty_cache :: (nat \<times> nat list list, mask) lru_cache)
      = lru_cache_calls (\<lambda>key. BiggestTissueBoxMask_mask ex_mask_env (snd key)) empty_cache []"
    by simp
  have h2: "regions_from_binary_mask ex_mask_env
     (tissue_mask_filters ex_mask_env (thumbnail ex_mask_env ex_slide)) \<noteq> []"
    by (simp add: ex_thumb_mask ex_regions_of_mask)
  have e: "(7, ex_slide) \<notin> fst ` set (entries (empty_cache :: (nat \<times> nat list list, mask) lru_cache))"
    "misses (empty_cache :: (nat \<times> nat list list, mask) lru_cache) = 0"
    "hits (empty_cache :: (nat \<times> nat list list, mask) lru_cache) = 0"
    by (simp_all add: empty_cache_def)
  obtain m c1 where
        a: "BiggestTissueBoxMask_call ex_mask_env empty_cache 7 ex_slide = (Inr m, c1)"
    and b: "BiggestTissueBoxMask_mask ex_mask_env ex_slide = Inr m"
    and c: "(7, ex_slide) \<notin> fst ` set (entries (empty_cache :: (nat \<times> nat list list, mask) lru_cache))
               \<longrightarrow> misses c1 = misses (empty_cache :: (nat \<times> nat list list, mask) lru_cache) + 1
                 \<and> hits c1 = hits (empty_cache :: (nat \<times> nat list list, mask) lru_cache)"
    and d: "\<forall>env' :: (nat list list, nat list list, (nat \<times> nat) list) mask_env. \<exists>c2.
                BiggestTissueBoxMask_call env' c1 7 ex_slide = (Inr m, c2)
              \<and> misses c2 = misses c1 \<and> hits c2 = hits c1 + 1
              \<and> map_of (entries c2) (7, ex_slide) = Some m"
    using biggest_box_mask_cached [OF h1 h2, of 7] by blast
  have m: "m = ?M"
    using b ex_box_mask by simp
  have cnt: "misses c1 = 1" "hits c1 = 0"
    using c e by simp_all
  obtain c2 where c2: "BiggestTissueBoxMask_call ex_mask_env c1 7 ex_slide = (Inr m, c2)"
      "misses c2 = misses c1" "hits c2 = hits c1 + 1"
    using d by blast
  obtain c3 where c3: "BiggestTissueBoxMask_call ex_mask_env_dark c1 7 ex_slide = (Inr m, c3)"
      "misses c3 = misses c1" "hits c3 = hits c1 + 1"
    using d by blast
  show ?thesis
    using a cnt c2 c3 ex_dark_no_mask unfolding m by auto
qed

text \<open>
  C9. The masks have the size of the thumbnail. With the tissue-mask filters being the
  three-step chain, and the thumbnail an image of \<open>height\<close> rows of \<open>width\<close> pixels,
  \<open>TissueMask\<close> returns a mask of \<open>height\<close> rows of \<open>width\<close> pixels. Whenever
  \<open>BiggestTissueBoxMask\<close> returns a mask, it is the polygon of a region of largest area
  of the tissue mask, drawn on a canvas of \<open>thumb.size\<close>, so it has the size of the
  thumbnail too, and a mask is returned whenever the tissue mask has a region. The same
  holds for the calls through the cache. The pixels of a mask are booleans.
\<close>

theorem mask_dimensions:
  fixes env :: "('slide, 'p list list, 'c) mask_env"
  assumes "tissue_mask_filters env = tissue_mask_composition channel threshold cleanup"
      and "has_size (thumbnail env slide) (image_size env (thumbnail env slide))"
  shows "(\<exists>m. TissueMask_mask env slide = Inr m
             \<and> has_size m (image_size env (thumbnail env slide))
             \<and> (\<forall>history self.
                   fst (TissueMask_call env
                          (lru_cache_calls (\<lambda>key. TissueMask_mask env (snd key)) empty_cache history)
                          self slide) = Inr m))
       \<and> (\<forall>m. BiggestTissueBoxMask_mask env slide = Inr m
             \<longrightarrow> has_size m (image_size env (thumbnail env slide))
               \<and> (\<exists>r\<in>set (regions_from_binary_mask env (tissue_mask_filters env (thumbnail env slide))).
                     (\<forall>s\<in>set (regions_from_binary_mask env
                                 (tissue_mask_filters env (thumbnail env slide))). area s \<le> area r)
                   \<and> m = polygon_to_mask_array (polygon_fill env)
                           (image_size env (thumbnail env slide)) (region_coordinates env r)))
       \<and> (\<forall>m history self.
             fst (BiggestTissueBoxMask_call env
                    (lru_cache_calls (\<lambda>key. BiggestTissueBoxMask_mask env (snd key)) empty_cache history)
                    self slide) = Inr m
             \<longrightarrow> has_size m (image_size env (thumbnail env slide)))
       \<and> (regions_from_binary_mask env (tissue_mask_filters env (thumbnail env slide)) \<noteq> []
             \<longrightarrow> (\<exists>m. BiggestTissueBoxMask_mask env slide = Inr m))"
proof -
  let ?rs = "regions_from_binary_mask env (tissue_mask_filters env (thumbnail env slide))"
  let ?dims = "image_size env (thumbnail env slide)"
  have "has_size (tissue_mask_filters env (thumbnail env slide)) ?dims"
    unfolding assms(1) using assms(2) by (rule tissue_mask_composition_size)
  then have tissue: "\<exists>m. TissueMask_mask env slide = Inr m
             \<and> has_size m ?dims
             \<and> (\<forall>history self.
                   fst (TissueMask_call env
                          (lru_cache_calls (\<lambda>key. TissueMask_mask env (snd key)) empty_cache history)
                          self slide) = Inr m)"
    by (simp add: TissueMask_call_reachable) (simp add: TissueMask_mask_def)
  have box: "has_size m ?dims
               \<and> (\<exists>r\<in>set ?rs. (\<forall>s\<in>set ?rs. area s \<le> area r)
                   \<and> m = polygon_to_mask_array (polygon_fill env) ?dims (region_coordinates env r))"
    if ret: "BiggestTissueBoxMask_mask env slide = Inr m" for m
  proof (cases "?rs = []")
    case True
    then show ?thesis
      using ret BiggestTissueBoxMask_mask_empty [OF True] by simp
  next
    case False
    then obtain r where sel: "BiggestTissueBoxMask_regions ?rs 1 = Inr [r]"
      and val: "BiggestTissueBoxMask_mask env slide =
               Inr (polygon_to_mask_array (polygon_fill env) ?dims (region_coordinates env r))"
      using BiggestTissueBoxMask_mask_nonempty [OF False] by blast
    have m: "m = polygon_to_mask_array (polygon_fill env) ?dims (region_coordinates env r)"
      using ret val by simp
    have "has_size m ?dims"
      unfolding m by (rule polygon_to_mask_array_size)
    with regions_first_largest [OF sel] m show ?thesis by blast
  qed
  then have direct: "\<forall>m. BiggestTissueBoxMask_mask env slide = Inr m
             \<longrightarrow> has_size m ?dims
               \<and> (\<exists>r\<in>set ?rs. (\<forall>s\<in>set ?rs. area s \<le> area r)
                   \<and> m = polygon_to_mask_array (polygon_fill env) ?dims (region_coordinates env r))"
    by blast
  from box have cached: "\<forall>m history self.
             fst (BiggestTissueBoxMask_call env
                    (lru_cache_calls (\<lambda>key. BiggestTissueBoxMask_mask env (snd key)) empty_cache history)
                    self slide) = Inr m
             \<longrightarrow> has_size m ?dims"
    by (simp add: BiggestTissueBoxMask_call_reachable)
  have some: "?rs \<noteq> [] \<longrightarrow> (\<exists>m. BiggestTissueBoxMask_mask env slide = Inr m)"
    using BiggestTissueBoxMask_mask_nonempty [of env slide] by auto
  show ?thesis
    by (intro conjI tissue direct cached some)
qed

theorem mask_dimensions_witness:
  "has_size (thumbnail ex_filter_env ex_slide) (3, 2)
   \<and> image_size ex_filter_env (thumbnail ex_filter_env ex_slide) = (3, 2)
   \<and> TissueMask_mask ex_filter_env ex_slide = Inr [[False, True, True], [False, False, False]]
   \<and> has_size [[False, True, True], [False, False, False]] (3, 2)
   \<and> BiggestTissueBoxMask_mask ex_filter_env ex_slide
       = Inr [[False, True, True], [False, False, False]]"
proof -
  have h1: "tissue_mask_filters ex_filter_env =
      tissue_mask_composition (\<lambda>img x y. 255 - img ! y ! x) (\<lambda>g x y. g ! y ! x > 55)
       (\<lambda>m x y. m ! y ! x \<and> (x > 0 \<and> m ! y ! (x - 1) \<or> Suc x < length (m ! y) \<and> m ! y ! Suc x))"
    by (simp add: ex_filter_env_def)
  have h2: "has_size (thumbnail ex_filter_env ex_slide)
              (image_size ex_filter_env (thumbnail ex_filter_env ex_slide))"
    by (simp only: ex_filter_masks(3)) (simp add: ex_filter_masks(4) has_size_def)
  have h3: "has_size (thumbnail ex_filter_env ex_slide) (3, 2)"
    using h2 by (simp only: ex_filter_masks(3))
  have h4: "has_size [[False, True, True], [False, False, False]] (3, 2)"
    using mask_dimensions [OF h1 h2] by (simp add: ex_filter_masks(1,3))
  show ?thesis
    using h3 h4 ex_filter_masks(1,2,3) by simp
qed

section \<open>The nuclei score\<close>

lemma count_filter_rows:
  "length (filter P (concat m)) = (\<Sum>i<length m. length (filter P (m ! i)))"
proof -
  have "length (filter P (concat m)) = sum_list (map (\<lambda>row. length (filter P row)) m)"
    by (induction m) simp_all
  also have "\<dots> = (\<Sum>i<length m. length (filter P (m ! i)))"
    by (simp add: sum_list_sum_nth atLeast0LessThan)
  finally show ?thesis .
qed

lemma count_nonzero_card:
  assumes "length m = h" and "\<forall>row\<in>set m. length row = w"
  shows "count_nonzero m = card {(i, j). i < h \<and> j < w \<and> m ! i ! j}"
proof -
  have row: "length (filter (\<lambda>b. b) (m ! i)) = card {j. j < w \<and> m ! i ! j}" if "i < h" for i
  proof -
    have "length (m ! i) = w" using assms that by simp
    then show ?thesis by (simp add: length_filter_conv_card)
  qed
  have "count_nonzero m = (\<Sum>i<h. length (filter (\<lambda>b. b) (m ! i)))"
    unfolding count_nonzero_def using assms(1) by (simp add: count_filter_rows)
  also have "\<dots> = (\<Sum>i<h. card {j. j < w \<and> m ! i ! j})"
    using row by simp
  also have "\<dots> = card (SIGMA i:{..<h}. {j. j < w \<and> m ! i ! j})"
    by (subst card_SigmaI) simp_all
  also have "(SIGMA i:{..<h}. {j. j < w \<and> m ! i ! j}) = {(i, j). i < h \<and> j < w \<and> m ! i ! j}"
    by auto
  finally show ?thesis .
qed

lemma array_size_rect:
  assumes "length m = h" and "\<forall>row\<in>set m. length row = w"
  shows "array_size m = h * w"
proof -
  have "sum_list (map length m) = length m * w"
    using assms(2) by (induction m) simp_all
  then show ?thesis
    using assms(1) by (simp add: array_size_def length_concat)
qed

lemma mask_difference_shape:
  assumes "length a = h" and "\<forall>row\<in>set a. length row = w"
      and "length b = h" and "\<forall>row\<in>set b. length row = w"
  shows "length (mask_difference a b) = h"
    and "\<forall>row\<in>set (mask_difference a b). length row = w"
    and "\<forall>i j. i < h \<and> j < w \<longrightarrow> mask_difference a b ! i ! j = (a ! i ! j \<and> \<not> b ! i ! j)"
proof -
  show "length (mask_difference a b) = h"
    using assms by (simp add: mask_difference_def)
  show "\<forall>row\<in>set (mask_difference a b). length row = w"
    using assms by (auto simp: mask_difference_def dest!: set_zip_leftD set_zip_rightD elim!: in_set_zipE)
  show "\<forall>i j. i < h \<and> j < w \<longrightarrow> mask_difference a b ! i ! j = (a ! i ! j \<and> \<not> b ! i ! j)"
    using assms by (simp add: mask_difference_def)
qed


lemma NucleiScorer_call_unfold:
  "NucleiScorer_call env t =
     (if array_size (mask_difference (mask_raw_nuclei env t) (mask_nuclei_clean env t)) = 0
      then Inl ZeroDivisionError
      else Inr (real (count_nonzero (mask_difference (mask_raw_nuclei env t) (mask_nuclei_clean env t)))
                / real (array_size (mask_difference (mask_raw_nuclei env t) (mask_nuclei_clean env t)))
                * tanh (tissue_ratio t)))"
  by (simp add: NucleiScorer_call_def true_divide_def Let_def)

lemma ex_masks:
  "mask_raw_nuclei ex_scorer_env ex_tile = [[True, True], [False, True]]"
  "mask_nuclei_clean ex_scorer_env ex_tile = [[True, False], [False, False]]"
  by (simp_all add: mask_raw_nuclei_def mask_nuclei_clean_def filters_raw_nuclei_def
      filters_nuclei_cleaner_def Compose_def apply_filters_def ex_scorer_env_def ex_tile_def)

lemma ex_score: "NucleiScorer_call ex_scorer_env ex_tile = Inr (1 / 2 * tanh (1 / 2))"
  by (simp add: NucleiScorer_call_unfold ex_masks mask_difference_def array_size_def
      count_nonzero_def) (simp add: ex_tile_def)

lemma ex_masks_no_tissue:
  "mask_raw_nuclei ex_scorer_env ex_tile_no_tissue = [[True, True], [False, True]]"
  "mask_nuclei_clean ex_scorer_env ex_tile_no_tissue = [[True, False], [False, False]]"
  by (simp_all add: mask_raw_nuclei_def mask_nuclei_clean_def filters_raw_nuclei_def
      filters_nuclei_cleaner_def Compose_def apply_filters_def ex_scorer_env_def
      ex_tile_no_tissue_def)

text \<open>
  C1. The score is the nuclei ratio times \<open>tanh\<close> of the tissue ratio. With the raw and
  the cleaned nuclei mask of the tile both of \<open>h\<close> rows and \<open>w\<close> columns, the nuclei
  ratio is the number of pixels that are on in the raw mask and off in the cleaned one,
  divided by the number \<open>h * w\<close> of all pixels. On no pixels the division of step 4 is by
  zero, and the call raises \<open>ZeroDivisionError\<close>.
\<close>

theorem nuclei_score_formula:
  assumes "length (mask_raw_nuclei env t) = h"
      and "\<forall>row\<in>set (mask_raw_nuclei env t). length row = w"
      and "length (mask_nuclei_clean env t) = h"
      and "\<forall>row\<in>set (mask_nuclei_clean env t). length row = w"
  shows "NucleiScorer_call env t =
     (if h * w = 0 then Inl ZeroDivisionError
      else Inr (real (card {(i, j). i < h \<and> j < w
                            \<and> mask_raw_nuclei env t ! i ! j \<and> \<not> mask_nuclei_clean env t ! i ! j})
                / real (h * w) * tanh (tissue_ratio t)))"
proof -
  let ?d = "mask_difference (mask_raw_nuclei env t) (mask_nuclei_clean env t)"
  have len: "length ?d = h" and rows: "\<forall>row\<in>set ?d. length row = w"
    and px: "\<forall>i j. i < h \<and> j < w \<longrightarrow>
               ?d ! i ! j = (mask_raw_nuclei env t ! i ! j \<and> \<not> mask_nuclei_clean env t ! i ! j)"
    using mask_difference_shape [OF assms] by blast+
  have size: "array_size ?d = h * w"
    using len rows by (rule array_size_rect)
  have "count_nonzero ?d = card {(i, j). i < h \<and> j < w \<and> ?d ! i ! j}"
    using len rows by (rule count_nonzero_card)
  also have "{(i, j). i < h \<and> j < w \<and> ?d ! i ! j}
      = {(i, j). i < h \<and> j < w
           \<and> mask_raw_nuclei env t ! i ! j \<and> \<not> mask_nuclei_clean env t ! i ! j}"
    using px by auto
  finally have count: "count_nonzero ?d = card {(i, j). i < h \<and> j < w
           \<and> mask_raw_nuclei env t ! i ! j \<and> \<not> mask_nuclei_clean env t ! i ! j}" .
  show ?thesis
    unfolding NucleiScorer_call_unfold size count by simp
qed

theorem nuclei_score_formula_witness:
  "NucleiScorer_call ex_scorer_env ex_tile =
     Inr (real (card {(i, j). i < 2 \<and> j < 2
                       \<and> mask_raw_nuclei ex_scorer_env ex_tile ! i ! j
                       \<and> \<not> mask_nuclei_clean ex_scorer_env ex_tile ! i ! j})
          / real (2 * 2) * tanh (tissue_ratio ex_tile))
   \<and> NucleiScorer_call ex_scorer_env ex_tile = Inr (1 / 2 * tanh (1 / 2))"
proof -
  have a: "length (mask_raw_nuclei ex_scorer_env ex_tile) = 2"
    and b: "\<forall>row\<in>set (mask_raw_nuclei ex_scorer_env ex_tile). length row = 2"
    and c: "length (mask_nuclei_clean ex_scorer_env ex_tile) = 2"
    and d: "\<forall>row\<in>set (mask_nuclei_clean ex_scorer_env ex_tile). length row = 2"
    by (simp_all add: ex_masks)
  show ?thesis
    using nuclei_score_formula [OF a b c d] ex_score by simp
qed

text \<open>
  C6, as the code has it. The ratio is computed without a guard: on a nuclei mask of
  size 0 the call raises \<open>ZeroDivisionError\<close>, and on a mask of any other size it
  returns a number. The statement that a zero-area tile yields a number fails on the
  empty tile.
\<close>

theorem nuclei_score_zero_area_counterexample:
  "array_size (mask_difference (mask_raw_nuclei ex_scorer_env ex_tile_empty)
                               (mask_nuclei_clean ex_scorer_env ex_tile_empty)) = 0
   \<and> NucleiScorer_call ex_scorer_env ex_tile_empty = Inl ZeroDivisionError"
  by (simp add: NucleiScorer_call_unfold mask_raw_nuclei_def mask_nuclei_clean_def
      filters_raw_nuclei_def filters_nuclei_cleaner_def Compose_def apply_filters_def
      ex_scorer_env_def ex_tile_empty_def mask_difference_def array_size_def)

text \<open>
  C6, amended: a nuclei mask of size 0 makes the call raise \<open>ZeroDivisionError\<close>; a
  nuclei mask of positive size makes it return a number.
\<close>

theorem nuclei_score_zero_area:
  "(array_size (mask_difference (mask_raw_nuclei env t) (mask_nuclei_clean env t)) = 0
      \<longrightarrow> NucleiScorer_call env t = Inl ZeroDivisionError)
   \<and> (array_size (mask_difference (mask_raw_nuclei env t) (mask_nuclei_clean env t)) \<noteq> 0
      \<longrightarrow> (\<exists>v. NucleiScorer_call env t = Inr v))"
  by (simp add: NucleiScorer_call_unfold)

theorem nuclei_score_zero_area_witness:
  "NucleiScorer_call ex_scorer_env ex_tile_empty = Inl ZeroDivisionError
   \<and> (\<exists>v. NucleiScorer_call ex_scorer_env ex_tile = Inr v)"
proof -
  have e: "array_size (mask_difference (mask_raw_nuclei ex_scorer_env ex_tile_empty)
                               (mask_nuclei_clean ex_scorer_env ex_tile_empty)) = 0"
    by (simp add: mask_raw_nuclei_def mask_nuclei_clean_def
      filters_raw_nuclei_def filters_nuclei_cleaner_def Compose_def apply_filters_def
      ex_scorer_env_def ex_tile_empty_def mask_difference_def array_size_def)
  have n: "array_size (mask_difference (mask_raw_nuclei ex_scorer_env ex_tile)
                               (mask_nuclei_clean ex_scorer_env ex_tile)) \<noteq> 0"
    by (simp add: ex_masks mask_difference_def array_size_def)
  show ?thesis
    using nuclei_score_zero_area [of ex_scorer_env ex_tile_empty]
      nuclei_score_zero_area [of ex_scorer_env ex_tile] e n by blast
qed

text \<open>
  C8, as the code has it. A tile with tissue ratio 0 and two rows of no pixels has a
  nuclei mask of size 0: the division raises before \<open>tanh\<close> is reached, and the score is
  not 0.
\<close>

theorem nuclei_score_no_tissue_counterexample:
  "tissue_ratio ex_tile_empty_rows = 0
   \<and> NucleiScorer_call ex_scorer_env ex_tile_empty_rows = Inl ZeroDivisionError
   \<and> NucleiScorer_call ex_scorer_env ex_tile_empty_rows \<noteq> Inr 0"
  by (simp add: NucleiScorer_call_unfold mask_raw_nuclei_def mask_nuclei_clean_def
      filters_raw_nuclei_def filters_nuclei_cleaner_def Compose_def apply_filters_def
      ex_scorer_env_def ex_tile_empty_rows_def mask_difference_def array_size_def)

text \<open>
  C8, amended: for every tile with tissue ratio 0 whose nuclei mask has a pixel, the
  score is exactly 0, whatever the masks hold, since \<open>tanh 0 = 0\<close>.
\<close>

theorem nuclei_score_no_tissue:
  assumes "tissue_ratio t = 0"
      and "array_size (mask_difference (mask_raw_nuclei env t) (mask_nuclei_clean env t)) \<noteq> 0"
  shows "NucleiScorer_call env t = Inr 0"
  using assms by (simp add: NucleiScorer_call_unfold)

theorem nuclei_score_no_tissue_witness:
  "tissue_ratio ex_tile_no_tissue = 0
   \<and> count_nonzero (mask_difference (mask_raw_nuclei ex_scorer_env ex_tile_no_tissue)
                       (mask_nuclei_clean ex_scorer_env ex_tile_no_tissue)) = 2
   \<and> NucleiScorer_call ex_scorer_env ex_tile_no_tissue = Inr 0"
proof -
  have z: "tissue_ratio ex_tile_no_tissue = 0"
    by (simp add: ex_tile_no_tissue_def)
  have n: "array_size (mask_difference (mask_raw_nuclei ex_scorer_env ex_tile_no_tissue)
                               (mask_nuclei_clean ex_scorer_env ex_tile_no_tissue)) \<noteq> 0"
    by (simp add: ex_masks_no_tissue mask_difference_def array_size_def)
  have c: "count_nonzero (mask_difference (mask_raw_nuclei ex_scorer_env ex_tile_no_tissue)
                       (mask_nuclei_clean ex_scorer_env ex_tile_no_tissue)) = 2"
    by (simp add: ex_masks_no_tissue mask_difference_def count_nonzero_def)
  show ?thesis
    using nuclei_score_no_tissue [OF z n] z c by simp
qed

end
